theory Spec2Isabelle
  imports Complex_Main "HOL-Library.AList"
begin

section \<open>Common data: exceptions and JSON documents\<close>

text \<open>
  The Python exceptions that the modelled functions can raise. A function that can raise
  returns \<open>py_exn + 'a\<close>, with \<open>Inl\<close> carrying the exception.
\<close>

datatype py_exn = ValueError | KeyError | TypeError | AttributeError
  | FileNotFoundError | ZeroDivisionError

text \<open>
  Documents are Python dicts holding JSON values: association lists from field names to
  values, read with \<open>map_of\<close> and written with \<open>AList.update\<close>, which replaces the
  value of a key that is present and appends a new key otherwise, as a dict does.
\<close>

datatype jval = JNull | JBool bool | JInt int | JStr string
  | JList "jval list" | JObj "(string \<times> jval) list"

type_synonym doc = "(string \<times> jval) list"

text \<open>Python truthiness, as used by \<open>if x:\<close> and \<open>not x\<close>.\<close>

fun truthy :: "jval \<Rightarrow> bool" where
  "truthy JNull = False"
| "truthy (JBool b) = b"
| "truthy (JInt i) = (i \<noteq> 0)"
| "truthy (JStr s) = (s \<noteq> [])"
| "truthy (JList xs) = (xs \<noteq> [])"
| "truthy (JObj kvs) = (kvs \<noteq> [])"

text \<open>
  \<open>d[k]\<close> raises KeyError on a missing key; \<open>d.get(k)\<close> yields \<open>None\<close>
  instead.
\<close>

definition getitem :: "doc \<Rightarrow> string \<Rightarrow> py_exn + jval" where
  "getitem d k = (case map_of d k of None \<Rightarrow> Inl KeyError | Some v \<Rightarrow> Inr v)"

definition dict_get :: "doc \<Rightarrow> string \<Rightarrow> jval" where
  "dict_get d k = (case map_of d k of None \<Rightarrow> JNull | Some v \<Rightarrow> v)"

section \<open>reindex.py: configuration and the daily quota\<close>

record reindex_config =
  index_name :: string
  queue_name :: string
  active_key :: string
  refresh_key :: string

definition video_config :: reindex_config where
  "video_config = \<lparr>index_name = ''ta_video'', queue_name = ''reindex:ta_video'',
     active_key = ''active'', refresh_key = ''vid_last_refresh''\<rparr>"

definition channel_config :: reindex_config where
  "channel_config = \<lparr>index_name = ''ta_channel'', queue_name = ''reindex:ta_channel'',
     active_key = ''channel_active'', refresh_key = ''channel_last_refresh''\<rparr>"

definition playlist_config :: reindex_config where
  "playlist_config = \<lparr>index_name = ''ta_playlist'', queue_name = ''reindex:ta_playlist'',
     active_key = ''playlist_active'', refresh_key = ''playlist_last_refresh''\<rparr>"

text \<open>\<open>ReindexBase.REINDEX_CONFIG\<close>, a dict in insertion order.\<close>

definition REINDEX_CONFIG :: "(string \<times> reindex_config) list" where
  "REINDEX_CONFIG = [(''video'', video_config), (''channel'', channel_config),
     (''playlist'', playlist_config)]"

text \<open>
  \<open>MULTIPLY = 1.2\<close>. The source multiplies an integer by the binary float nearest to
  1.2 and truncates with \<open>int()\<close>; the model multiplies by the rational 12/10, which
  gives the same truncated result for every count that an index can hold (the product is
  either an integer, which the float product rounds to exactly, or at least 0.2 away
  from the next integer).
\<close>

definition MULTIPLY :: rat where
  "MULTIPLY = 12 / 10"

text \<open>Python's \<open>int(x)\<close> on a number: truncation toward zero.\<close>

definition py_int :: "rat \<Rightarrow> int" where
  "py_int x = (if 0 \<le> x then \<lfloor>x\<rfloor> else \<lceil>x\<rceil>)"

text \<open>
  \<open>ReindexOutdated._get_daily_should\<close>; the first argument is \<open>self.interval\<close>.
  \<open>//\<close> is floor division and raises ZeroDivisionError on a zero divisor.
\<close>

definition get_daily_should :: "int \<Rightarrow> int \<Rightarrow> py_exn + int" where
  "get_daily_should interval total_hits =
     (if interval = 0 then Inl ZeroDivisionError
      else
        let daily_should = py_int (of_int (total_hits div interval + 1) * MULTIPLY);
            daily_should = (if daily_should \<ge> 10000 then 9999 else daily_should)
        in Inr daily_should)"

text \<open>The quota as the specification words it: \<open>min(9999, ceil(n / d * 1.2))\<close>.\<close>

definition spec_daily_quota :: "int \<Rightarrow> int \<Rightarrow> int" where
  "spec_daily_quota n d = min 9999 \<lceil>(of_int n :: rat) / of_int d * (12 / 10)\<rceil>"

text \<open>
  Modelled from the spec: the document store's search (\<open>ElasticWrap(...).get\<close>) is not
  part of the sources. An index is the list of its documents with their ids; the query
  of \<open>_get_outdated_ids\<close> keeps the documents whose \<open>active\<close> field is true and whose
  refresh field is at most \<open>now_lte\<close>, sorts them ascending by the refresh field and
  returns at most \<open>size\<close> of them. A negative size is rejected by the store, and the
  response then has no \<open>hits\<close> key.
\<close>

definition int_field :: "doc \<Rightarrow> string \<Rightarrow> int" where
  "int_field d k = (case map_of d k of Some (JInt t) \<Rightarrow> t | _ \<Rightarrow> 0)"

definition is_int_field :: "doc \<Rightarrow> string \<Rightarrow> bool" where
  "is_int_field d k = (case map_of d k of Some (JInt t) \<Rightarrow> True | _ \<Rightarrow> False)"

definition es_search_outdated ::
  "(string \<times> doc) list \<Rightarrow> string \<Rightarrow> int \<Rightarrow> int \<Rightarrow> py_exn + (string \<times> doc) list" where
  "es_search_outdated idx rkey now_lte sz =
     (if sz < 0 then Inl KeyError
      else Inr (take (nat sz)
        (sort_key (\<lambda>h. int_field (snd h) rkey)
          (filter (\<lambda>h. map_of (snd h) ''active'' = Some (JBool True)
                      \<and> is_int_field (snd h) rkey \<and> int_field (snd h) rkey \<le> now_lte) idx))))"

text \<open>
  \<open>ReindexOutdated._get_outdated_ids\<close>; \<open>now\<close> and \<open>interval\<close> are the fields of
  \<open>self\<close>, \<open>idx\<close> is the content of the index named by the configuration.
\<close>

definition get_outdated_ids ::
  "int \<Rightarrow> int \<Rightarrow> (string \<times> doc) list \<Rightarrow> reindex_config \<Rightarrow> int \<Rightarrow> py_exn + string list" where
  "get_outdated_ids now interval idx cfg daily_should =
     (let now_lte = now - interval * 24 * 60 * 60
      in case es_search_outdated idx (refresh_key cfg) now_lte daily_should of
           Inl e \<Rightarrow> Inl e
         | Inr hits \<Rightarrow> Inr (map fst hits))"

section \<open>queue.py: the pending list\<close>

text \<open>
  One request of the list handed to \<open>PendingList\<close>: the dict
  \<open>{"type": ..., "url": ...}\<close>. Identifiers are JSON strings, on which Python's
  \<open>==\<close> and \<open>in\<close> are structural equality.
\<close>

record entry =
  etype :: string
  url :: jval

text \<open>
  The fields of a \<open>PendingList\<close> object that the resolution pass reads and writes.
  \<open>registered\<close> collects the entries handed to
  \<open>PlaylistSubscription().process_url_str\<close> and \<open>notified\<close> counts the progress
  messages sent through \<open>RedisArchivist\<close>; both collaborators are outside the sources.
\<close>

record pending_list =
  youtube_ids :: "entry list"
  all_pending :: "doc list"
  all_ignored :: "doc list"
  all_videos :: "doc list"
  to_skip :: "jval list"
  missing_videos :: "jval list"
  registered :: "entry list"
  notified :: nat

text \<open>
  The external lookups of the pass: the rows returned by
  \<open>ChannelSubscription().get_last_youtube_videos(url, limit=False)\<close>, whose first
  component is the video id, and the \<open>json_data\<close> of a \<open>YoutubePlaylist\<close> after
  \<open>build_json()\<close> (\<open>None\<close> when it is not a dict).
\<close>

record lookups =
  last_youtube_videos :: "jval \<Rightarrow> (jval \<times> jval) list"
  playlist_json :: "jval \<Rightarrow> doc option"

text \<open>
  \<open>PendingIndex.get_download\<close>: the loop over the rows of \<open>ta_download\<close>. A raise
  leaves the object as it is at that point, so every function returns the exception, if
  any, together with the object.
\<close>

fun get_download_loop :: "doc list \<Rightarrow> pending_list \<Rightarrow> py_exn option \<times> pending_list" where
  "get_download_loop [] st = (None, st)"
| "get_download_loop (result # rest) st =
     (case map_of result ''youtube_id'' of
        None \<Rightarrow> (Some KeyError, st)
      | Some yid \<Rightarrow>
          let st1 = st\<lparr>to_skip := to_skip st @ [yid]\<rparr>
          in (case map_of result ''status'' of
                None \<Rightarrow> (Some KeyError, st1)
              | Some status \<Rightarrow>
                  if status = JStr ''pending''
                  then get_download_loop rest (st1\<lparr>all_pending := all_pending st1 @ [result]\<rparr>)
                  else if status = JStr ''ignore''
                  then get_download_loop rest (st1\<lparr>all_ignored := all_ignored st1 @ [result]\<rparr>)
                  else get_download_loop rest st1))"

definition get_download :: "doc list \<Rightarrow> pending_list \<Rightarrow> py_exn option \<times> pending_list" where
  "get_download all_results st =
     get_download_loop all_results (st\<lparr>all_pending := [], all_ignored := [], to_skip := []\<rparr>)"

text \<open>\<open>PendingIndex.get_indexed\<close>, on the rows of \<open>ta_video\<close>.\<close>

fun get_indexed_loop :: "doc list \<Rightarrow> pending_list \<Rightarrow> py_exn option \<times> pending_list" where
  "get_indexed_loop [] st = (None, st)"
| "get_indexed_loop (video # rest) st =
     (case map_of video ''youtube_id'' of
        None \<Rightarrow> (Some KeyError, st)
      | Some yid \<Rightarrow> get_indexed_loop rest (st\<lparr>to_skip := to_skip st @ [yid]\<rparr>))"

definition get_indexed :: "doc list \<Rightarrow> pending_list \<Rightarrow> py_exn option \<times> pending_list" where
  "get_indexed all_results st = get_indexed_loop all_results (st\<lparr>all_videos := all_results\<rparr>)"

text \<open>\<open>PendingList._add_video\<close>; the \<open>else\<close> branch only prints.\<close>

definition add_video :: "jval \<Rightarrow> pending_list \<Rightarrow> pending_list" where
  "add_video u st =
     (if u \<notin> set (missing_videos st) \<and> u \<notin> set (to_skip st)
      then st\<lparr>missing_videos := missing_videos st @ [u]\<rparr>
      else st)"

fun add_videos :: "jval list \<Rightarrow> pending_list \<Rightarrow> pending_list" where
  "add_videos [] st = st"
| "add_videos (video_id # rest) st = add_videos rest (add_video video_id st)"

text \<open>\<open>PendingList._parse_channel\<close>.\<close>

definition parse_channel :: "lookups \<Rightarrow> jval \<Rightarrow> pending_list \<Rightarrow> pending_list" where
  "parse_channel x u st =
     (let video_results = last_youtube_videos x u;
          ids = map fst video_results
      in add_videos ids st)"

text \<open>
  The list comprehension of \<open>_parse_playlist\<close>: \<open>i["youtube_id"]\<close> for every entry
  of \<open>playlist_entries\<close>. Subscripting an entry that is not a dict with a string raises
  TypeError.
\<close>

fun entry_ids :: "jval list \<Rightarrow> py_exn + jval list" where
  "entry_ids [] = Inr []"
| "entry_ids (JObj d # rest) =
     (case map_of d ''youtube_id'' of
        None \<Rightarrow> Inl KeyError
      | Some yid \<Rightarrow> (case entry_ids rest of Inl e \<Rightarrow> Inl e | Inr ids \<Rightarrow> Inr (yid # ids)))"
| "entry_ids (_ # rest) = Inl TypeError"

text \<open>
  \<open>PendingList._parse_playlist\<close>. \<open>json_data.get\<close> raises AttributeError when
  \<open>build_json\<close> left no dict. Iterating \<open>None\<close>, a number or a boolean raises
  TypeError; an empty string or dict yields no entry, and the characters of a string or
  the keys of a dict cannot be subscripted with a string.
\<close>

definition parse_playlist :: "lookups \<Rightarrow> jval \<Rightarrow> pending_list \<Rightarrow> py_exn option \<times> pending_list" where
  "parse_playlist x u st =
     (case playlist_json x u of
        None \<Rightarrow> (Some AttributeError, st)
      | Some json_data \<Rightarrow>
          (case dict_get json_data ''playlist_entries'' of
             JList video_results \<Rightarrow>
               (case entry_ids video_results of
                  Inl e \<Rightarrow> (Some e, st)
                | Inr ids \<Rightarrow> (None, add_videos ids st))
           | JStr s \<Rightarrow> if s = [] then (None, add_videos [] st) else (Some TypeError, st)
           | JObj kvs \<Rightarrow> if kvs = [] then (None, add_videos [] st) else (Some TypeError, st)
           | _ \<Rightarrow> (Some TypeError, st)))"

text \<open>\<open>PendingList._process_entry\<close>.\<close>

definition process_entry :: "lookups \<Rightarrow> entry \<Rightarrow> pending_list \<Rightarrow> py_exn option \<times> pending_list" where
  "process_entry x e st =
     (if etype e = ''video'' then (None, add_video (url e) st)
      else if etype e = ''channel'' then (None, parse_channel x (url e) st)
      else if etype e = ''playlist'' then
        (case parse_playlist x (url e) st of
           (Some err, st1) \<Rightarrow> (Some err, st1)
         | (None, st1) \<Rightarrow> (None, st1\<lparr>registered := registered st1 @ [e]\<rparr>))
      else (Some ValueError, st))"

text \<open>
  The \<open>for entry in self.youtube_ids\<close> loop of \<open>parse_url_list\<close>: a progress message,
  then \<open>_process_entry\<close>. Nothing catches an exception of \<open>_process_entry\<close>, so the
  loop ends there.
\<close>

fun process_entries :: "lookups \<Rightarrow> entry list \<Rightarrow> pending_list \<Rightarrow> py_exn option \<times> pending_list" where
  "process_entries x [] st = (None, st)"
| "process_entries x (e # rest) st =
     (case process_entry x e (st\<lparr>notified := Suc (notified st)\<rparr>) of
        (Some err, st1) \<Rightarrow> (Some err, st1)
      | (None, st1) \<Rightarrow> process_entries x rest st1)"

text \<open>
  \<open>PendingList.parse_url_list\<close>; \<open>dl\<close> and \<open>idx\<close> are the rows that the store
  returns for \<open>ta_download\<close> and \<open>ta_video\<close>.
\<close>

definition parse_url_list ::
  "lookups \<Rightarrow> doc list \<Rightarrow> doc list \<Rightarrow> pending_list \<Rightarrow> py_exn option \<times> pending_list" where
  "parse_url_list x dl idx st =
     (case get_download dl (st\<lparr>missing_videos := []\<rparr>) of
        (Some err, st1) \<Rightarrow> (Some err, st1)
      | (None, st1) \<Rightarrow>
          (case get_indexed idx st1 of
             (Some err, st2) \<Rightarrow> (Some err, st2)
           | (None, st2) \<Rightarrow> process_entries x (youtube_ids st2) st2))"

section \<open>queue.py: the progress notifier\<close>

text \<open>
  The guard of the console message in \<open>PendingList._notify_add\<close>, written
  \<open>idx + 1 % 25 == 0\<close>. In Python \<open>%\<close> binds tighter than \<open>+\<close>, and \<open>==\<close> is
  weaker than both, so the test is \<open>(idx + (1 % 25)) == 0\<close>.
\<close>

definition notify_add_prints :: "int \<Rightarrow> bool" where
  "notify_add_prints idx = (idx + (1 mod 25) = 0)"

text \<open>
  \<open>PendingList._notify_add\<close>: the expiry of the progress message (\<open>Inl 4\<close> for the
  last item, \<open>Inr True\<close> otherwise) and whether the console line is printed.
\<close>

definition notify_add :: "int \<Rightarrow> int \<Rightarrow> (int + bool) \<times> bool" where
  "notify_add idx len_missing =
     (let expire = (if idx + 1 = len_missing then Inl 4 else Inr True)
      in (expire, notify_add_prints idx))"

section \<open>The document store and the outside world\<close>

text \<open>
  The application configuration, as far as the modelled code reads it:
  \<open>config["downloads"]["cookie_import"]\<close>, \<open>config["downloads"]["comment_max"]\<close>.
\<close>

record app_config =
  cookie_import :: jval
  comment_max :: jval

text \<open>
  The answers of the collaborators that are outside the sources and that the refresh only
  reads: the result of \<open>CookieHandler(config).validate()\<close>, the \<open>info_json\<close> of the
  comment extraction (\<open>None\<close> when the extractor returns nothing), the formatting of
  one raw comment (\<open>Comments.clean_comment\<close>, date and text clean-up, which may raise),
  the subtitles found for a video, the \<open>json_data\<close> of a channel after
  \<open>get_from_youtube()\<close> and of a playlist after \<open>build_json(scrape=True)\<close> (given the
  ids of the indexed videos), and the clock.
\<close>

record extractor =
  cookie_validate :: bool
  yt_comments :: "string \<Rightarrow> doc option"
  clean_comment :: "jval \<Rightarrow> py_exn + jval"
  yt_subtitles :: "string \<Rightarrow> jval option"
  yt_channel :: "string \<Rightarrow> doc option"
  yt_playlist :: "string \<Rightarrow> jval list \<Rightarrow> doc option"
  now :: int

text \<open>
  One answer of \<open>YoutubeVideo.build_json()\<close>: it raises, it finds nothing upstream
  (\<open>youtube_meta\<close> stays empty), or it leaves the fresh document in \<open>json_data\<close>.
\<close>

datatype pull = Raises py_exn | NoData | Fresh doc

text \<open>
  The indexes of the store, each an association list from document id to document, the
  thumbnail cache (video id to the URL the thumbnail was fetched from), and \<open>pulls\<close>,
  the answers that the extractor will give for each video id, in call order: the outside
  world may answer a second call differently from the first.
\<close>

record archive =
  ta_video :: "(string \<times> doc) list"
  ta_channel :: "(string \<times> doc) list"
  ta_playlist :: "(string \<times> doc) list"
  ta_comment :: "(string \<times> doc) list"
  ta_download :: "(string \<times> doc) list"
  thumbs :: "(string \<times> jval) list"
  pulls :: "string \<Rightarrow> pull list"

text \<open>
  Modelled from the spec: the store operations behind \<open>ElasticWrap\<close>, which is not part
  of the sources. \<open>es_put\<close> is the single-document replace (or create) of
  \<open>upload_to_es\<close>; \<open>es_update\<close> is the partial update of one field, which leaves a
  missing document missing; \<open>es_delete\<close> removes one document.
\<close>

definition es_put :: "string \<Rightarrow> doc \<Rightarrow> (string \<times> doc) list \<Rightarrow> (string \<times> doc) list" where
  "es_put i d idx = AList.update i d idx"

definition es_update :: "string \<Rightarrow> string \<Rightarrow> jval \<Rightarrow> (string \<times> doc) list \<Rightarrow> (string \<times> doc) list" where
  "es_update i k v idx =
     (case map_of idx i of None \<Rightarrow> idx | Some d \<Rightarrow> AList.update i (AList.update k v d) idx)"

definition es_delete :: "string \<Rightarrow> (string \<times> doc) list \<Rightarrow> (string \<times> doc) list" where
  "es_delete i idx = AList.delete i idx"

text \<open>
  Modelled from the spec: \<open>deactivate()\<close> of \<open>YoutubeVideo\<close>, \<open>YoutubeChannel\<close> and
  \<open>YoutubePlaylist\<close> is not part of the sources. The spec says that upstream
  disappearance sets the active flag of the entity to false and does nothing else; the
  flag is the \<open>active_key\<close> of the entity type.
\<close>

definition deactivate :: "reindex_config \<Rightarrow> string \<Rightarrow> (string \<times> doc) list \<Rightarrow> (string \<times> doc) list" where
  "deactivate rc i idx = es_update i (active_key rc) (JBool False) idx"

section \<open>comments.py: refreshing the comments of a video\<close>

text \<open>\<open>Comments.check_config\<close>: the value of \<open>is_activated\<close>.\<close>

definition check_config :: "app_config \<Rightarrow> bool" where
  "check_config cfg = truthy (comment_max cfg)"

text \<open>
  \<open>Comments.format_comments\<close>: \<open>clean_comment\<close> on every raw comment. It is called
  on a truthy \<open>comments_raw\<close> only; iterating a value that is not a list of comments
  raises TypeError.
\<close>

fun clean_all :: "extractor \<Rightarrow> jval list \<Rightarrow> py_exn + jval list" where
  "clean_all x [] = Inr []"
| "clean_all x (comment # rest) =
     (case clean_comment x comment of
        Inl e \<Rightarrow> Inl e
      | Inr cleaned_comment \<Rightarrow>
          (case clean_all x rest of Inl e \<Rightarrow> Inl e | Inr comments \<Rightarrow> Inr (cleaned_comment # comments)))"

definition format_comments :: "extractor \<Rightarrow> jval \<Rightarrow> py_exn + jval list" where
  "format_comments x comments_raw =
     (case comments_raw of JList cs \<Rightarrow> clean_all x cs | _ \<Rightarrow> Inl TypeError)"

text \<open>
  \<open>Comments.build_json\<close> for an activated object (\<open>notify=False\<close>, so no
  notification): the pair of \<open>comments_format\<close> and \<open>json_data\<close>.
  \<open>build_yt_obs\<close> calls \<open>split\<close> on \<open>comment_max\<close>, which raises AttributeError
  unless it is a string, and \<open>info_json.get\<close> raises AttributeError when the extractor
  returned nothing.
\<close>

definition comments_build_json ::
  "extractor \<Rightarrow> app_config \<Rightarrow> string \<Rightarrow> py_exn + (jval list \<times> doc)" where
  "comments_build_json x cfg youtube_id =
     (case comment_max cfg of
        JStr max_comments \<Rightarrow>
          (case yt_comments x youtube_id of
             None \<Rightarrow> Inl AttributeError
           | Some info_json \<Rightarrow>
               let comments_raw = dict_get info_json ''comments'';
                   channel_id = dict_get info_json ''channel_id''
               in (case (if truthy comments_raw then format_comments x comments_raw else Inr []) of
                     Inl e \<Rightarrow> Inl e
                   | Inr comments_format \<Rightarrow>
                       Inr (comments_format,
                            [(''youtube_id'', JStr youtube_id),
                             (''comment_last_refresh'', JInt (now x)),
                             (''comment_channel_id'', channel_id),
                             (''comment_comments'', JList comments_format)])))
      | _ \<Rightarrow> Inl AttributeError)"

text \<open>\<open>Comments.get_es_comments\<close>: \<open>None\<close> stands for the \<open>False\<close> of a 404.\<close>

definition get_es_comments :: "archive \<Rightarrow> string \<Rightarrow> doc option" where
  "get_es_comments a youtube_id = map_of (ta_comment a) youtube_id"

text \<open>\<open>Comments.delete_comments\<close> and \<open>Comments.upload_comments\<close>.\<close>

definition delete_comments :: "string \<Rightarrow> archive \<Rightarrow> archive" where
  "delete_comments youtube_id a = a\<lparr>ta_comment := es_delete youtube_id (ta_comment a)\<rparr>"

definition upload_comments :: "bool \<Rightarrow> string \<Rightarrow> jval list \<Rightarrow> doc \<Rightarrow> archive \<Rightarrow> archive" where
  "upload_comments is_activated youtube_id comments_format json_data a =
     (if \<not> is_activated then a
      else
        let a1 = a\<lparr>ta_comment := es_put youtube_id json_data (ta_comment a)\<rparr>
        in a1\<lparr>ta_video :=
                es_update youtube_id ''comment_count'' (JInt (int (length comments_format)))
                  (ta_video a1)\<rparr>)"

text \<open>
  The second test of \<open>reindex_comments\<close>,
  \<open>not self.comments_format and es_comments["comment_comments"]\<close>: \<open>and\<close> evaluates
  its right operand only when the left one is true.
\<close>

definition keep_es_comments :: "jval list \<Rightarrow> doc option \<Rightarrow> py_exn + bool" where
  "keep_es_comments comments_format es_comments =
     (if \<not> (comments_format = []) then Inr False
      else
        (case es_comments of
           None \<Rightarrow> Inl TypeError
         | Some src \<Rightarrow>
             (case getitem src ''comment_comments'' of
                Inl e \<Rightarrow> Inl e
              | Inr v \<Rightarrow> Inr (truthy v))))"

text \<open>\<open>Comments.reindex_comments\<close>.\<close>

definition reindex_comments ::
  "extractor \<Rightarrow> app_config \<Rightarrow> string \<Rightarrow> archive \<Rightarrow> py_exn option \<times> archive" where
  "reindex_comments x cfg youtube_id a =
     (let is_activated = check_config cfg
      in if \<not> is_activated then (None, a)
         else
           (case comments_build_json x cfg youtube_id of
              Inl e \<Rightarrow> (Some e, a)
            | Inr (comments_format, json_data) \<Rightarrow>
                (let es_comments = get_es_comments a youtube_id
                 in if comments_format = [] then (None, a)
                    else
                      (case keep_es_comments comments_format es_comments of
                         Inl e \<Rightarrow> (Some e, a)
                       | Inr keep \<Rightarrow>
                           if keep then (None, a)
                           else (None, upload_comments is_activated youtube_id comments_format
                                         json_data (delete_comments youtube_id a))))))"

section \<open>reindex.py: refreshing one entity\<close>

text \<open>
  Modelled from the spec: \<open>YoutubeVideo.build_json()\<close> is not part of the sources. It
  pulls fresh metadata from the source; the model takes the next answer that the outside
  world holds for the video, and nothing upstream when no answer is left.
\<close>

definition build_json :: "string \<Rightarrow> archive \<Rightarrow> pull \<times> archive" where
  "build_json youtube_id a =
     (case pulls a youtube_id of
        [] \<Rightarrow> (NoData, a)
      | p # rest \<Rightarrow> (p, a\<lparr>pulls := (pulls a)(youtube_id := rest)\<rparr>))"

text \<open>
  Modelled from the spec: \<open>YoutubeVideo.check_subtitles()\<close> is not part of the sources.
  It re-checks the subtitles against the fresh metadata and attaches the references it
  finds to \<open>json_data\<close>; \<open>delete_subtitles\<close> removes subtitle files and touches no
  document.
\<close>

definition check_subtitles :: "extractor \<Rightarrow> string \<Rightarrow> doc \<Rightarrow> doc" where
  "check_subtitles x youtube_id json_data =
     (case yt_subtitles x youtube_id of
        None \<Rightarrow> json_data
      | Some indexed \<Rightarrow> AList.update ''subtitles'' indexed json_data)"

text \<open>
  \<open>ThumbManager.delete_video_thumb\<close> followed by \<open>download_video_thumb(url)\<close>, on the
  thumbnail cache.
\<close>

definition refresh_thumb :: "string \<Rightarrow> jval \<Rightarrow> archive \<Rightarrow> archive" where
  "refresh_thumb youtube_id thumb_url a =
     (let a1 = a\<lparr>thumbs := AList.delete youtube_id (thumbs a)\<rparr>
      in a1\<lparr>thumbs := AList.update youtube_id thumb_url (thumbs a1)\<rparr>)"

text \<open>
  \<open>Reindex._reindex_single_video_call\<close>. \<open>get_from_es\<close> leaves \<open>None\<close> in
  \<open>json_data\<close> when the document is missing, and subscripting it raises TypeError; a
  missing sticky key raises KeyError.
\<close>

definition reindex_single_video_call ::
  "extractor \<Rightarrow> app_config \<Rightarrow> string \<Rightarrow> archive \<Rightarrow> py_exn option \<times> archive" where
  "reindex_single_video_call x cfg youtube_id a =
     (case map_of (ta_video a) youtube_id of
        None \<Rightarrow> (Some TypeError, a)
      | Some stored \<Rightarrow>
          (case map_of stored ''player'' of
             None \<Rightarrow> (Some KeyError, a)
           | Some player \<Rightarrow>
          (case map_of stored ''date_downloaded'' of
             None \<Rightarrow> (Some KeyError, a)
           | Some date_downloaded \<Rightarrow>
          (case map_of stored ''channel'' of
             None \<Rightarrow> (Some KeyError, a)
           | Some channel_dict \<Rightarrow>
               (let playlist = dict_get stored ''playlist'';
                    subtitles = dict_get stored ''subtitles''
                in case build_json youtube_id a of
                     (Raises e, a1) \<Rightarrow> (Some e, a1)
                   | (NoData, a1) \<Rightarrow>
                       (None, a1\<lparr>ta_video := deactivate video_config youtube_id (ta_video a1)\<rparr>)
                   | (Fresh fresh, a1) \<Rightarrow>
                       (let json_data = check_subtitles x youtube_id fresh;
                            json_data = AList.update ''player'' player json_data;
                            json_data = AList.update ''date_downloaded'' date_downloaded json_data;
                            json_data = AList.update ''channel'' channel_dict json_data;
                            json_data = (if truthy playlist
                                         then AList.update ''playlist'' playlist json_data
                                         else json_data);
                            a2 = a1\<lparr>ta_video := es_put youtube_id json_data (ta_video a1)\<rparr>
                        in case map_of json_data ''vid_thumb_url'' of
                             None \<Rightarrow> (Some KeyError, a2)
                           | Some thumb_url \<Rightarrow>
                               reindex_comments x cfg youtube_id
                                 (refresh_thumb youtube_id thumb_url a2)))))))"

text \<open>
  \<open>ChannelUrlFixer.__init__\<close>: the object that line 249 builds. Its \<open>run\<close> method is
  not called there, so the object is dropped as built.
\<close>

record channel_url_fixer =
  fixer_youtube_id :: string
  fixer_config :: app_config
  fixer_video :: "doc option"

definition ChannelUrlFixer :: "string \<Rightarrow> app_config \<Rightarrow> channel_url_fixer" where
  "ChannelUrlFixer youtube_id cfg =
     \<lparr>fixer_youtube_id = youtube_id, fixer_config = cfg, fixer_video = None\<rparr>"

text \<open>
  \<open>Reindex._reindex_single_video\<close>: a FileNotFoundError of the first call is caught,
  and the call is made once more; whatever the second call raises is not caught.
\<close>

definition reindex_single_video ::
  "extractor \<Rightarrow> app_config \<Rightarrow> string \<Rightarrow> archive \<Rightarrow> py_exn option \<times> archive" where
  "reindex_single_video x cfg youtube_id a =
     (case reindex_single_video_call x cfg youtube_id a of
        (Some e, a1) \<Rightarrow>
          if e = FileNotFoundError
          then (let fixer = ChannelUrlFixer youtube_id cfg
                in reindex_single_video_call x cfg youtube_id a1)
          else (Some e, a1)
      | (None, a1) \<Rightarrow> (None, a1))"

text \<open>
  Modelled from the spec: \<open>YoutubeChannel.sync_to_videos()\<close> is not part of the
  sources. It propagates the channel record to every video that the channel owns: the
  videos whose \<open>channel\<close> object carries the channel id get the record as their
  \<open>channel\<close> field.
\<close>

definition owned_by :: "string \<Rightarrow> doc \<Rightarrow> bool" where
  "owned_by channel_id d =
     (case map_of d ''channel'' of
        Some (JObj c) \<Rightarrow> map_of c ''channel_id'' = Some (JStr channel_id)
      | _ \<Rightarrow> False)"

definition sync_to_videos :: "string \<Rightarrow> doc \<Rightarrow> (string \<times> doc) list \<Rightarrow> (string \<times> doc) list" where
  "sync_to_videos channel_id json_data videos =
     map (\<lambda>(i, d). (i, if owned_by channel_id d
                        then AList.update ''channel'' (JObj json_data) d
                        else d)) videos"

text \<open>
  \<open>Reindex._reindex_single_channel\<close>. \<open>json_data\<close> after \<open>get_from_youtube()\<close> is
  falsy when it is \<open>None\<close>/\<open>False\<close> or an empty dict. In the branch without upstream
  data the record is read again after \<open>deactivate()\<close> and synced to the videos.
\<close>

definition reindex_single_channel ::
  "extractor \<Rightarrow> string \<Rightarrow> archive \<Rightarrow> py_exn option \<times> archive" where
  "reindex_single_channel x channel_id a =
     (case map_of (ta_channel a) channel_id of
        None \<Rightarrow> (Some TypeError, a)
      | Some stored \<Rightarrow>
          (case map_of stored ''channel_subscribed'' of
             None \<Rightarrow> (Some KeyError, a)
           | Some subscribed \<Rightarrow>
               (let overwrites = (case map_of stored ''channel_overwrites'' of
                                    None \<Rightarrow> JBool False | Some v \<Rightarrow> v);
                    pulled = (case yt_channel x channel_id of None \<Rightarrow> [] | Some d \<Rightarrow> d)
                in if pulled = [] then
                     (let a1 = a\<lparr>ta_channel := deactivate channel_config channel_id (ta_channel a)\<rparr>
                      in case map_of (ta_channel a1) channel_id of
                           None \<Rightarrow> (Some TypeError, a1)
                         | Some json_data \<Rightarrow>
                             (None, a1\<lparr>ta_video := sync_to_videos channel_id json_data (ta_video a1)\<rparr>))
                   else
                     (let json_data = AList.update ''channel_subscribed'' subscribed pulled;
                          json_data = (if truthy overwrites
                                       then AList.update ''channel_overwrites'' overwrites json_data
                                       else json_data);
                          a1 = a\<lparr>ta_channel := es_put channel_id json_data (ta_channel a)\<rparr>
                      in (None, a1\<lparr>ta_video := sync_to_videos channel_id json_data (ta_video a1)\<rparr>)))))"

text \<open>A fresh \<open>PendingList()\<close>; the fields that Python initialises to \<open>False\<close> are empty.\<close>

definition new_pending_list :: pending_list where
  "new_pending_list = \<lparr>youtube_ids = [], all_pending = [], all_ignored = [], all_videos = [],
     to_skip = [], missing_videos = [], registered = [], notified = 0\<rparr>"

text \<open>\<open>[i["youtube_id"] for i in handler.all_videos]\<close>.\<close>

fun video_ids :: "doc list \<Rightarrow> py_exn + jval list" where
  "video_ids [] = Inr []"
| "video_ids (i # rest) =
     (case map_of i ''youtube_id'' of
        None \<Rightarrow> Inl KeyError
      | Some yid \<Rightarrow> (case video_ids rest of Inl e \<Rightarrow> Inl e | Inr ids \<Rightarrow> Inr (yid # ids)))"

text \<open>
  \<open>Reindex._get_all_videos\<close>: the new value of \<open>self.all_indexed_ids\<close>, where
  \<open>None\<close> stands for the initial \<open>False\<close>. A value that is already truthy is kept.
\<close>

definition get_all_videos :: "jval list option \<Rightarrow> archive \<Rightarrow> py_exn + jval list option" where
  "get_all_videos all_indexed_ids a =
     (if all_indexed_ids \<noteq> None \<and> all_indexed_ids \<noteq> Some [] then Inr all_indexed_ids
      else
        (case get_download (map snd (ta_download a)) new_pending_list of
           (Some e, handler) \<Rightarrow> Inl e
         | (None, handler) \<Rightarrow>
             (case get_indexed (map snd (ta_video a)) handler of
                (Some e, handler) \<Rightarrow> Inl e
              | (None, handler) \<Rightarrow>
                  (case video_ids (all_videos handler) of
                     Inl e \<Rightarrow> Inl e
                   | Inr ids \<Rightarrow> Inr (Some ids)))))"

text \<open>
  \<open>Reindex._reindex_single_playlist\<close>, on the pair of \<open>self.all_indexed_ids\<close> and
  the store.
\<close>

definition reindex_single_playlist ::
  "extractor \<Rightarrow> string \<Rightarrow> jval list option \<times> archive
     \<Rightarrow> py_exn option \<times> jval list option \<times> archive" where
  "reindex_single_playlist x playlist_id s =
     (case s of (all_indexed_ids, a) \<Rightarrow>
        (case get_all_videos all_indexed_ids a of
           Inl e \<Rightarrow> (Some e, all_indexed_ids, a)
         | Inr ids \<Rightarrow>
             (case map_of (ta_playlist a) playlist_id of
                None \<Rightarrow> (Some TypeError, ids, a)
              | Some stored \<Rightarrow>
                  (case map_of stored ''playlist_subscribed'' of
                     None \<Rightarrow> (Some KeyError, ids, a)
                   | Some subscribed \<Rightarrow>
                       (let pulled = (case yt_playlist x playlist_id (case ids of None \<Rightarrow> [] | Some l \<Rightarrow> l) of
                                        None \<Rightarrow> [] | Some d \<Rightarrow> d)
                        in if pulled = [] then
                             (None, ids,
                              a\<lparr>ta_playlist := deactivate playlist_config playlist_id (ta_playlist a)\<rparr>)
                           else
                             (let json_data = AList.update ''playlist_subscribed'' subscribed pulled
                              in (None, ids,
                                  a\<lparr>ta_playlist := es_put playlist_id json_data (ta_playlist a)\<rparr>)))))))"

section \<open>reindex.py: draining the queues\<close>

text \<open>
  Modelled from the spec: \<open>RedisQueue\<close> and \<open>RedisArchivist\<close> are not part of the
  sources. A queue is the list of the identifiers it holds, under its name;
  \<open>get_next\<close> pops the first one (\<open>None\<close> for the \<open>False\<close> of an empty queue),
  \<open>has_item\<close> tells whether the queue holds anything, \<open>in_queue\<close> is the presence of
  an identifier and \<open>get_all\<close> is the whole list.
\<close>

definition get_next :: "string list \<Rightarrow> string option \<times> string list" where
  "get_next q = (case q of [] \<Rightarrow> (None, []) | i # rest \<Rightarrow> (Some i, rest))"

definition has_item :: "string list \<Rightarrow> bool" where
  "has_item q = (q \<noteq> [])"

definition in_queue :: "string list \<Rightarrow> string \<Rightarrow> bool" where
  "in_queue q element = (element \<in> set q)"

text \<open>
  What a refresh cycle works on: the queues by name, the \<open>last_reindex\<close> message, the
  field \<open>all_indexed_ids\<close> of the \<open>Reindex\<close> object, and the store.
\<close>

record world =
  redis :: "string \<Rightarrow> string list"
  last_reindex :: "int option"
  all_indexed_ids :: "jval list option"
  arch :: archive

text \<open>
  \<open>Reindex.get_reindex_map\<close>: the refresh function for an index name, on the pair of
  \<open>all_indexed_ids\<close> and the store; \<open>None\<close> for the \<open>None\<close> of \<open>def_map.get\<close>.
\<close>

definition get_reindex_map ::
  "extractor \<Rightarrow> app_config \<Rightarrow> string
     \<Rightarrow> (string \<Rightarrow> jval list option \<times> archive \<Rightarrow> py_exn option \<times> jval list option \<times> archive) option" where
  "get_reindex_map x cfg idx_name =
     (if idx_name = ''ta_video''
      then Some (\<lambda>i s. case reindex_single_video x cfg i (snd s) of (r, a) \<Rightarrow> (r, fst s, a))
      else if idx_name = ''ta_channel''
      then Some (\<lambda>i s. case reindex_single_channel x i (snd s) of (r, a) \<Rightarrow> (r, fst s, a))
      else if idx_name = ''ta_playlist''
      then Some (reindex_single_playlist x)
      else None)"

text \<open>
  \<open>Reindex.reindex_index\<close>: \<open>Inr has_next\<close>, or \<open>Inl\<close> the exception that the
  refresh raised, with the world as it is then. An empty identifier is falsy. Calling
  the \<open>None\<close> of an unknown index name raises TypeError. The throttling \<open>sleep\<close>
  takes time and changes nothing.
\<close>

definition reindex_index ::
  "extractor \<Rightarrow> app_config \<Rightarrow> reindex_config \<Rightarrow> world \<Rightarrow> (py_exn + bool) \<times> world" where
  "reindex_index x cfg rc w =
     (let reindex = get_reindex_map x cfg (index_name rc)
      in case get_next (redis w (queue_name rc)) of
           (None, q) \<Rightarrow> (Inr False, w\<lparr>redis := (redis w)(queue_name rc := q)\<rparr>)
         | (Some youtube_id, q) \<Rightarrow>
             (let w1 = w\<lparr>redis := (redis w)(queue_name rc := q)\<rparr>
              in if youtube_id = [] then (Inr False, w1)
                 else
                   (case reindex of
                      None \<Rightarrow> (Inl TypeError, w1)
                    | Some f \<Rightarrow>
                        (case f youtube_id (all_indexed_ids w1, arch w1) of
                           (Some e, ids, a) \<Rightarrow> (Inl e, w1\<lparr>all_indexed_ids := ids, arch := a\<rparr>)
                         | (None, ids, a) \<Rightarrow> (Inr True, w1\<lparr>all_indexed_ids := ids, arch := a\<rparr>)))))"

text \<open>
  The \<open>while True\<close> loop of \<open>reindex_all\<close> for one index: it ends when
  \<open>reindex_index\<close> reports no next item, or with the exception that escapes it.
\<close>

function drain :: "extractor \<Rightarrow> app_config \<Rightarrow> reindex_config \<Rightarrow> world \<Rightarrow> py_exn option \<times> world" where
  "drain x cfg rc w =
     (case reindex_index x cfg rc w of
        (Inl e, w1) \<Rightarrow> (Some e, w1)
      | (Inr has_next, w1) \<Rightarrow> if \<not> has_next then (None, w1) else drain x cfg rc w1)"
  by pat_completeness auto
termination
  by (relation "measure (\<lambda>(x, cfg, rc, w). length (redis w (queue_name rc)))")
     (auto simp: reindex_index_def get_next_def Let_def
        split: list.splits option.splits prod.splits if_splits)

declare drain.simps [simp del]

text \<open>The \<open>for index_config in self.REINDEX_CONFIG.values()\<close> loop of \<open>reindex_all\<close>.\<close>

fun drain_all ::
  "extractor \<Rightarrow> app_config \<Rightarrow> reindex_config list \<Rightarrow> world \<Rightarrow> py_exn option \<times> world" where
  "drain_all x cfg [] w = (None, w)"
| "drain_all x cfg (rc # rest) w =
     (if \<not> has_item (redis w (queue_name rc)) then drain_all x cfg rest w
      else
        (case drain x cfg rc w of
           (Some e, w1) \<Rightarrow> (Some e, w1)
         | (None, w1) \<Rightarrow> drain_all x cfg rest w1))"

text \<open>\<open>Reindex.cookie_invalid\<close>.\<close>

definition cookie_invalid :: "extractor \<Rightarrow> app_config \<Rightarrow> bool" where
  "cookie_invalid x cfg =
     (if \<not> truthy (cookie_import cfg) then False
      else (let valid = cookie_validate x in valid))"

text \<open>\<open>Reindex.reindex_all\<close>; \<open>self.now\<close> is the clock read when the object was built.\<close>

definition reindex_all :: "extractor \<Rightarrow> app_config \<Rightarrow> world \<Rightarrow> py_exn option \<times> world" where
  "reindex_all x cfg w =
     (if cookie_invalid x cfg then (None, w)
      else
        (case drain_all x cfg (map snd REINDEX_CONFIG) w of
           (Some e, w1) \<Rightarrow> (Some e, w1)
         | (None, w1) \<Rightarrow> (None, w1\<lparr>last_reindex := Some (now x)\<rparr>)))"

text \<open>
  Refreshing keeps the documents of the three entity indexes: every identifier that has a
  document before has one afterwards.
\<close>

definition keeps_documents :: "archive \<Rightarrow> archive \<Rightarrow> bool" where
  "keeps_documents a a' =
     (set (map fst (ta_video a)) \<subseteq> set (map fst (ta_video a'))
      \<and> set (map fst (ta_channel a)) \<subseteq> set (map fst (ta_channel a'))
      \<and> set (map fst (ta_playlist a)) \<subseteq> set (map fst (ta_playlist a')))"

section \<open>reindex.py: progress of the refresh\<close>

text \<open>
  A \<open>ReindexProgress\<close> object; \<open>None\<close> stands for the default \<open>False\<close> of either
  field, and an empty string is falsy as well.
\<close>

record reindex_progress =
  request_type :: "string option"
  request_id :: "string option"

definition falsy :: "string option \<Rightarrow> bool" where
  "falsy v = (v = None \<or> v = Some [])"

text \<open>\<open>ReindexProgress._get_queue_name\<close>.\<close>

definition get_queue_name :: "reindex_progress \<Rightarrow> py_exn + string \<times> string" where
  "get_queue_name p =
     (if falsy (request_type p) then Inr (''all'', ''all'')
      else
        (case map_of REINDEX_CONFIG (the (request_type p)) of
           None \<Rightarrow> Inl ValueError
         | Some rc \<Rightarrow> Inr (queue_name rc, the (request_type p))))"

text \<open>\<open>ReindexProgress._get_total_in_queue\<close>.\<close>

definition get_total_in_queue :: "(string \<Rightarrow> string list) \<Rightarrow> string \<Rightarrow> nat" where
  "get_total_in_queue rq qname =
     (if qname = ''all''
      then (let queues = map (\<lambda>i. queue_name (snd i)) REINDEX_CONFIG
            in fold (\<lambda>queue total_queued. total_queued + length (rq queue)) queues 0)
      else 0 + length (rq qname))"

text \<open>
  \<open>ReindexProgress._get_state\<close>: the state dict. The state of a request with an id is
  what \<open>in_queue\<close> returns.
\<close>

definition get_state :: "(string \<Rightarrow> string list) \<Rightarrow> reindex_progress \<Rightarrow> nat \<Rightarrow> string \<Rightarrow> doc" where
  "get_state rq p total_queued qname =
     (if \<not> falsy (request_id p)
      then (let state = in_queue (rq qname) (the (request_id p))
            in [(''id'', JStr (the (request_id p))), (''state'', JBool state)])
      else (let state = (if total_queued \<noteq> 0 then ''running'' else ''empty'')
            in [(''state'', JStr state)]))"

text \<open>\<open>ReindexProgress.get_progress\<close>; \<open>progress.update(state)\<close> adds the state keys.\<close>

definition get_progress :: "(string \<Rightarrow> string list) \<Rightarrow> reindex_progress \<Rightarrow> py_exn + doc" where
  "get_progress rq p =
     (case get_queue_name p of
        Inl e \<Rightarrow> Inl e
      | Inr (qname, rtype) \<Rightarrow>
          (let total_queued = get_total_in_queue rq qname;
               progress = [(''total_queued'', JInt (int total_queued)), (''type'', JStr rtype)];
               state = get_state rq p total_queued qname
           in Inr (fold (\<lambda>(k, v). AList.update k v) state progress)))"

section \<open>Sample data\<close>

text \<open>
  An item index for the outdated-detection pass: v2 was refreshed before v1, v3 is
  inactive and v4 was refreshed recently.
\<close>

definition sample_videos :: "(string \<times> doc) list" where
  "sample_videos =
     [(''v1'', [(''active'', JBool True), (''vid_last_refresh'', JInt 30)]),
      (''v2'', [(''active'', JBool True), (''vid_last_refresh'', JInt 10)]),
      (''v3'', [(''active'', JBool False), (''vid_last_refresh'', JInt 5)]),
      (''v4'', [(''active'', JBool True), (''vid_last_refresh'', JInt 999999)])]"

text \<open>
  A small resolution pass: a channel with the members a, b and c, where a is indexed and
  b is pending, followed by a direct request for c.
\<close>

definition sample_lookups :: lookups where
  "sample_lookups =
     \<lparr>last_youtube_videos = (\<lambda>_. [(JStr ''a'', JStr ''A''), (JStr ''b'', JStr ''B''),
                                    (JStr ''c'', JStr ''C'')]),
      playlist_json = (\<lambda>_. None)\<rparr>"

definition sample_download :: "doc list" where
  "sample_download = [[(''youtube_id'', JStr ''b''), (''status'', JStr ''pending'')]]"

definition sample_indexed :: "doc list" where
  "sample_indexed = [[(''youtube_id'', JStr ''a'')]]"



text \<open>
  A small archive for the refresh: two videos of channel c1, the channel, a playlist and
  the stored comments of v1. Upstream answers nothing unless a sample says otherwise;
  comments are switched off in \<open>sample_config\<close> and on in \<open>comment_config\<close>.
\<close>

definition sample_video :: doc where
  "sample_video =
     [(''youtube_id'', JStr ''v1''), (''title'', JStr ''old title''), (''duration'', JInt 60),
      (''vid_thumb_url'', JStr ''old.jpg''),
      (''player'', JObj [(''watched'', JBool True)]), (''date_downloaded'', JInt 100),
      (''channel'', JObj [(''channel_id'', JStr ''c1'')]), (''active'', JBool True)]"

definition other_video :: doc where
  "other_video =
     [(''youtube_id'', JStr ''v2''), (''title'', JStr ''other title''), (''duration'', JInt 90),
      (''vid_thumb_url'', JStr ''other.jpg''),
      (''player'', JObj [(''watched'', JBool False)]), (''date_downloaded'', JInt 150),
      (''channel'', JObj [(''channel_id'', JStr ''c1'')]), (''active'', JBool True)]"

definition fresh_video :: doc where
  "fresh_video =
     [(''youtube_id'', JStr ''v1''), (''title'', JStr ''new title''), (''duration'', JInt 61),
      (''vid_thumb_url'', JStr ''new.jpg''),
      (''player'', JObj [(''watched'', JBool False)]), (''date_downloaded'', JInt 200),
      (''channel'', JObj [(''channel_id'', JStr ''c1''), (''channel_name'', JStr ''renamed'')]),
      (''active'', JBool True)]"

definition sample_channel :: doc where
  "sample_channel =
     [(''channel_name'', JStr ''old name''), (''channel_subscribed'', JBool True),
      (''channel_overwrites'', JObj [(''autodelete_days'', JInt 30)]),
      (''channel_active'', JBool True)]"

definition fresh_channel :: doc where
  "fresh_channel =
     [(''channel_name'', JStr ''new name''), (''channel_subscribed'', JBool False),
      (''channel_active'', JBool True)]"

definition plain_channel :: doc where
  "plain_channel =
     [(''channel_name'', JStr ''old name''), (''channel_subscribed'', JBool True),
      (''channel_overwrites'', JObj []), (''channel_active'', JBool True)]"

definition sample_playlist :: doc where
  "sample_playlist =
     [(''playlist_name'', JStr ''list''), (''playlist_subscribed'', JBool True),
      (''playlist_active'', JBool True)]"

definition sample_comments :: doc where
  "sample_comments =
     [(''youtube_id'', JStr ''v1''), (''comment_last_refresh'', JInt 1),
      (''comment_channel_id'', JStr ''c1''),
      (''comment_comments'', JList [JObj [(''comment_text'', JStr ''first'')]])]"

definition sample_archive :: archive where
  "sample_archive =
     \<lparr>ta_video = [(''v1'', sample_video), (''v2'', other_video)],
      ta_channel = [(''c1'', sample_channel)],
      ta_playlist = [(''p1'', sample_playlist)],
      ta_comment = [(''v1'', sample_comments)],
      ta_download = [], thumbs = [], pulls = (\<lambda>_. [])\<rparr>"

definition sample_extractor :: extractor where
  "sample_extractor =
     \<lparr>cookie_validate = False, yt_comments = (\<lambda>_. Some [(''channel_id'', JStr ''c1'')]),
      clean_comment = (\<lambda>c. Inr c), yt_subtitles = (\<lambda>_. None), yt_channel = (\<lambda>_. None),
      yt_playlist = (\<lambda>_ _. None), now = 5\<rparr>"

definition sample_config :: app_config where
  "sample_config = \<lparr>cookie_import = JBool True, comment_max = JBool False\<rparr>"

definition comment_config :: app_config where
  "comment_config = \<lparr>cookie_import = JBool False, comment_max = JStr ''20,20,5,5''\<rparr>"

definition sample_world :: world where
  "sample_world =
     \<lparr>redis = (\<lambda>_. [])(''reindex:ta_video'' := [''v1'', ''v2'']), last_reindex = None,
      all_indexed_ids = None, arch = sample_archive\<rparr>"

text \<open>
  Variations: upstream answers with fresh data; the files of v1 are not where the stored
  record says, twice; the channel is stored with an empty overwrite map.
\<close>

definition fresh_archive :: archive where
  "fresh_archive = sample_archive\<lparr>pulls := (\<lambda>_. [])(''v1'' := [Fresh fresh_video])\<rparr>"

definition fresh_extractor :: extractor where
  "fresh_extractor = sample_extractor\<lparr>yt_channel := (\<lambda>_. Some fresh_channel)\<rparr>"

definition failing_archive :: archive where
  "failing_archive =
     sample_archive\<lparr>pulls := (\<lambda>_. [])(''v1'' := [Raises FileNotFoundError, Raises FileNotFoundError])\<rparr>"

definition failing_world :: world where
  "failing_world = sample_world\<lparr>arch := failing_archive\<rparr>"

definition plain_archive :: archive where
  "plain_archive = sample_archive\<lparr>ta_channel := [(''c1'', plain_channel)]\<rparr>"

definition talkative_extractor :: extractor where
  "talkative_extractor =
     sample_extractor\<lparr>yt_comments :=
       (\<lambda>_. Some [(''comments'', JList [JObj [(''text'', JStr ''second'')]]),
                  (''channel_id'', JStr ''c1'')])\<rparr>"

section \<open>The daily quota\<close>

lemma py_int_times_MULTIPLY: "0 \<le> k \<Longrightarrow> py_int (of_int k * MULTIPLY) = (k * 6) div 5"
proof -
  assume k: "0 \<le> k"
  have e: "(of_int k :: rat) * MULTIPLY = of_int (k * 6) / of_int 5"
    by (simp add: MULTIPLY_def)
  have nonneg: "(0::rat) \<le> of_int (k * 6) / of_int 5"
    using k by simp
  show ?thesis
    unfolding e py_int_def using nonneg by (simp only: if_True floor_divide_of_int_eq)
qed

lemma quota_cap: "(if (v::int) \<ge> 10000 then 9999 else v) = min 9999 v"
  by simp

lemma sorted_take_sort_key:
  "sorted (map f (take m (sort_key f xs)))" for f :: "'a \<Rightarrow> int"
  by (simp add: take_map [symmetric])

text \<open>
  C1, as the code has it. For every active count \<open>n \<ge> 0\<close> and every interval
  \<open>d \<ge> 1\<close>, the daily quota is \<open>min(9999, floor((floor(n / d) + 1) * 1.2))\<close>, and the
  search of the outdated-detection pass returns at most that many documents, ordered by
  their refresh time, oldest first.
\<close>

theorem daily_quota_amended:
  assumes "0 < d" and "0 \<le> n"
  shows "get_daily_should d n = Inr (min 9999 (((n div d + 1) * 6) div 5))
    \<and> (\<exists>hits. es_search_outdated idx (refresh_key cfg) (t - d * 24 * 60 * 60)
                 (min 9999 (((n div d + 1) * 6) div 5)) = Inr hits
          \<and> get_outdated_ids t d idx cfg (min 9999 (((n div d + 1) * 6) div 5))
              = Inr (map fst hits)
          \<and> int (length hits) \<le> min 9999 (((n div d + 1) * 6) div 5)
          \<and> sorted (map (\<lambda>h. int_field (snd h) (refresh_key cfg)) hits))"
proof -
  have k: "0 \<le> n div d + 1"
    using assms by (simp add: pos_imp_zdiv_nonneg_iff)
  have q: "get_daily_should d n = Inr (min 9999 (((n div d + 1) * 6) div 5))"
    unfolding get_daily_should_def Let_def py_int_times_MULTIPLY [OF k] quota_cap
    using assms(1) by simp
  have q0: "0 \<le> min 9999 (((n div d + 1) * 6) div 5)"
    using k by (simp add: pos_imp_zdiv_nonneg_iff)
  have search: "\<exists>hits. es_search_outdated idx (refresh_key cfg) (t - d * 24 * 60 * 60) v = Inr hits
             \<and> get_outdated_ids t d idx cfg v = Inr (map fst hits)
             \<and> int (length hits) \<le> v
             \<and> sorted (map (\<lambda>h. int_field (snd h) (refresh_key cfg)) hits)"
    if "0 \<le> v" for v
    using that sorted_take_sort_key [of "\<lambda>h. int_field (snd h) (refresh_key cfg)"]
    by (auto simp: es_search_outdated_def get_outdated_ids_def Let_def)
  from q search [OF q0] show ?thesis by (rule conjI)
qed

theorem daily_quota_amended_witness:
  "(0::int) < 7 \<and> (0::int) \<le> 700 \<and> get_daily_should 7 700 = Inr 121
    \<and> get_outdated_ids 1000000 7 sample_videos video_config 121 = Inr [''v2'', ''v1'']
    \<and> (0::int) < 1 \<and> (0::int) \<le> 1000000 \<and> get_daily_should 1 1000000 = Inr 9999"
proof -
  have a: "(0::int) < 7" and b: "(0::int) \<le> 700" and c: "(0::int) < 1" and d: "(0::int) \<le> 1000000"
    by simp_all
  have "get_daily_should 7 700 = Inr 121"
    using daily_quota_amended [OF a b, THEN conjunct1] by simp
  moreover have "get_daily_should 1 1000000 = Inr 9999"
    using daily_quota_amended [OF c d, THEN conjunct1] by simp
  moreover have "get_outdated_ids 1000000 7 sample_videos video_config 121 = Inr [''v2'', ''v1'']"
    by (simp add: get_outdated_ids_def es_search_outdated_def sample_videos_def video_config_def
        int_field_def is_int_field_def)
  ultimately show ?thesis by simp
qed

text \<open>
  C1 as the specification words it fails: for 700 active items and an interval of 7 days
  the code computes 121, the formula \<open>min(9999, ceil(n / d * 1.2))\<close> gives 120.
\<close>

theorem daily_quota_counterexample:
  "get_daily_should 7 700 = Inr 121 \<and> spec_daily_quota 700 7 = 120"
proof -
  have "(0::int) \<le> 700 div 7 + 1" by simp
  from py_int_times_MULTIPLY [OF this]
  have "get_daily_should 7 700 = Inr 121"
    unfolding get_daily_should_def Let_def by simp
  moreover have "spec_daily_quota 700 7 = 120"
    by (simp add: spec_daily_quota_def)
  ultimately show ?thesis by simp
qed

section \<open>The resolution pass\<close>










lemma process_entries_append:
  "process_entries x pre st = (None, st1)
   \<Longrightarrow> process_entries x (pre @ rest) st = process_entries x rest st1"
proof (induction pre arbitrary: st)
  case Nil
  then show ?case by simp
next
  case (Cons e pre)
  then show ?case by (auto split: prod.splits option.splits)
qed



text \<open>
  C10. When the request list of a pass holds an entry whose type is none of video,
  channel and playlist, the pass ends there with a ValueError: the object is left as the
  earlier entries made it (with one more progress message), so their additions to the
  missing list stay, and no later entry is processed.
\<close>

theorem invalid_type_aborts_pass:
  assumes "etype bad \<noteq> ''video''" and "etype bad \<noteq> ''channel''" and "etype bad \<noteq> ''playlist''"
    and "get_download dl (st\<lparr>missing_videos := []\<rparr>) = (None, st1)"
    and "get_indexed idx st1 = (None, st2)"
    and "youtube_ids st2 = earlier @ bad # later"
    and "process_entries x earlier st2 = (None, st3)"
  shows "parse_url_list x dl idx st = (Some ValueError, st3\<lparr>notified := Suc (notified st3)\<rparr>)"
proof -
  have "process_entries x (earlier @ bad # later) st2 = process_entries x (bad # later) st3"
    by (rule process_entries_append [OF assms(7)])
  also have "\<dots> = (Some ValueError, st3\<lparr>notified := Suc (notified st3)\<rparr>)"
    using assms(1-3) by (simp add: process_entry_def)
  finally show ?thesis
    using assms(4-6) by (simp add: parse_url_list_def)
qed

theorem invalid_type_aborts_pass_witness:
  "parse_url_list sample_lookups sample_download sample_indexed
     (new_pending_list\<lparr>youtube_ids :=
        [\<lparr>etype = ''video'', url = JStr ''c''\<rparr>, \<lparr>etype = ''album'', url = JStr ''x''\<rparr>,
         \<lparr>etype = ''video'', url = JStr ''d''\<rparr>]\<rparr>)
   = (Some ValueError,
      new_pending_list\<lparr>youtube_ids :=
        [\<lparr>etype = ''video'', url = JStr ''c''\<rparr>, \<lparr>etype = ''album'', url = JStr ''x''\<rparr>,
         \<lparr>etype = ''video'', url = JStr ''d''\<rparr>],
        all_pending := sample_download, all_videos := sample_indexed,
        to_skip := [JStr ''b'', JStr ''a''], missing_videos := [JStr ''c''], notified := 2\<rparr>)"
proof -
  let ?bad = "\<lparr>etype = ''album'', url = JStr ''x''\<rparr>"
  let ?st = "new_pending_list\<lparr>youtube_ids :=
        [\<lparr>etype = ''video'', url = JStr ''c''\<rparr>, ?bad, \<lparr>etype = ''video'', url = JStr ''d''\<rparr>]\<rparr>"
  let ?st1 = "?st\<lparr>all_pending := sample_download, to_skip := [JStr ''b'']\<rparr>"
  let ?st2 = "?st1\<lparr>all_videos := sample_indexed, to_skip := [JStr ''b'', JStr ''a'']\<rparr>"
  let ?st3 = "?st2\<lparr>missing_videos := [JStr ''c''], notified := 1\<rparr>"
  have t: "etype ?bad \<noteq> ''video''" "etype ?bad \<noteq> ''channel''" "etype ?bad \<noteq> ''playlist''"
    by simp_all
  have d: "get_download sample_download (?st\<lparr>missing_videos := []\<rparr>) = (None, ?st1)"
    by (simp add: get_download_def sample_download_def new_pending_list_def)
  have i: "get_indexed sample_indexed ?st1 = (None, ?st2)"
    by (simp add: get_indexed_def sample_indexed_def new_pending_list_def)
  have y: "youtube_ids ?st2
    = [\<lparr>etype = ''video'', url = JStr ''c''\<rparr>] @ ?bad # [\<lparr>etype = ''video'', url = JStr ''d''\<rparr>]"
    by simp
  have e: "process_entries sample_lookups [\<lparr>etype = ''video'', url = JStr ''c''\<rparr>] ?st2 = (None, ?st3)"
    by (simp add: process_entry_def add_video_def new_pending_list_def)
  show ?thesis
    using invalid_type_aborts_pass [OF t d i y e] by (simp add: new_pending_list_def)
qed

section \<open>The progress notifier\<close>

text \<open>
  C8, as the code has it. The guard \<open>idx + 1 % 25 == 0\<close> is \<open>idx + 1 == 0\<close>, so
  for every item index (the indexes of \<open>enumerate\<close> start at 0) it is false, and
  \<open>_notify_add\<close> never prints the console message.
\<close>

theorem notify_add_never_prints:
  assumes "0 \<le> idx"
  shows "\<not> notify_add_prints idx \<and> snd (notify_add idx len_missing) = False"
  using assms by (simp add: notify_add_def notify_add_prints_def Let_def)

theorem notify_add_never_prints_witness:
  "(0::int) \<le> 24 \<and> \<not> notify_add_prints 24 \<and> snd (notify_add 24 100) = False"
proof -
  have h: "(0::int) \<le> 24" by simp
  from notify_add_never_prints [OF h, of 100] h show ?thesis by simp
qed

text \<open>
  C8 as stated fails: the guard is not true for nearly every index; it is false at the
  first items and at the 25th (index 24).
\<close>

theorem notify_add_prints_counterexample:
  "notify_add_prints 0 = False \<and> notify_add_prints 1 = False \<and> notify_add_prints 2 = False
    \<and> notify_add_prints 24 = False"
  by (simp add: notify_add_prints_def)

section \<open>The refresh cycle\<close>

lemmas sample_defs = sample_archive_def sample_video_def other_video_def sample_channel_def
  sample_playlist_def sample_comments_def sample_extractor_def sample_config_def
  comment_config_def sample_world_def fresh_archive_def fresh_video_def fresh_channel_def
  fresh_extractor_def failing_archive_def failing_world_def plain_archive_def plain_channel_def
  talkative_extractor_def

lemmas reindex_defs = reindex_all_def cookie_invalid_def REINDEX_CONFIG_def video_config_def
  channel_config_def playlist_config_def has_item_def drain.simps reindex_index_def
  get_next_def get_reindex_map_def reindex_single_video_def reindex_single_video_call_def
  build_json_def deactivate_def es_update_def es_put_def dict_get_def ChannelUrlFixer_def
  reindex_comments_def check_config_def

text \<open>
  C2. The claim is what the docstring of \<open>cookie_invalid\<close> promises (true if the
  cookie is enabled and invalid), but the function returns the result of \<open>validate()\<close>
  itself. With a credential configured and failing validation, \<open>reindex_all\<close> does not
  return early: it drains the item queue and records the completion time. With a
  credential that validates, it returns at once and leaves everything as it is.
\<close>

theorem cookie_guard_inverted:
  "cookie_invalid x cfg = (truthy (cookie_import cfg) \<and> cookie_validate x)
   \<and> truthy (cookie_import sample_config) \<and> \<not> cookie_validate sample_extractor
   \<and> fst (reindex_all sample_extractor sample_config sample_world) = None
   \<and> redis (snd (reindex_all sample_extractor sample_config sample_world)) ''reindex:ta_video'' = []
   \<and> last_reindex (snd (reindex_all sample_extractor sample_config sample_world)) = Some 5
   \<and> cookie_validate (sample_extractor\<lparr>cookie_validate := True\<rparr>)
   \<and> reindex_all (sample_extractor\<lparr>cookie_validate := True\<rparr>) sample_config sample_world
       = (None, sample_world)"
proof -
  have "cookie_invalid x cfg = (truthy (cookie_import cfg) \<and> cookie_validate x)"
    by (simp add: cookie_invalid_def)
  moreover have "truthy (cookie_import sample_config) \<and> \<not> cookie_validate sample_extractor
   \<and> fst (reindex_all sample_extractor sample_config sample_world) = None
   \<and> redis (snd (reindex_all sample_extractor sample_config sample_world)) ''reindex:ta_video'' = []
   \<and> last_reindex (snd (reindex_all sample_extractor sample_config sample_world)) = Some 5
   \<and> cookie_validate (sample_extractor\<lparr>cookie_validate := True\<rparr>)
   \<and> reindex_all (sample_extractor\<lparr>cookie_validate := True\<rparr>) sample_config sample_world
       = (None, sample_world)"
    by (simp add: sample_defs reindex_defs Let_def)
  ultimately show ?thesis by (rule conjI)
qed





section \<open>Refreshing one entity\<close>

lemma map_of_es_put:
  "map_of (es_put i d idx) j = (if j = i then Some d else map_of idx j)"
  by (simp add: es_put_def update_conv')

lemma map_of_es_update:
  "map_of (es_update i k v idx) j
    = (if j = i then map_option (AList.update k v) (map_of idx i) else map_of idx j)"
  by (simp add: es_update_def update_conv' split: option.splits)

lemma map_of_sync_to_videos:
  "map_of (sync_to_videos c jd vs) j
    = map_option (\<lambda>d. if owned_by c d then AList.update ''channel'' (JObj jd) d else d) (map_of vs j)"
  unfolding sync_to_videos_def by (induction vs) auto




lemma reindex_comments_frame:
  assumes "reindex_comments x cfg i a = (r, a')"
  shows "ta_channel a' = ta_channel a \<and> ta_playlist a' = ta_playlist a
    \<and> (ta_video a' = ta_video a
        \<or> (\<exists>n. ta_video a' = es_update i ''comment_count'' (JInt n) (ta_video a)))"
  using assms
  by (auto simp: reindex_comments_def upload_comments_def delete_comments_def Let_def
      split: if_splits sum.splits prod.splits)

lemma keeps_documents_refl: "keeps_documents a a"
  by (simp add: keeps_documents_def)







lemma video_call_sticky:
  assumes st: "map_of (ta_video a) i = Some stored"
    and pl: "map_of stored ''player'' = Some player"
    and dd: "map_of stored ''date_downloaded'' = Some date_downloaded"
    and ch: "map_of stored ''channel'' = Some channel_dict"
    and pu: "pulls a i = Fresh fresh # rest"
    and run: "reindex_single_video_call x cfg i a = (r, a')"
  shows "\<exists>d. map_of (ta_video a') i = Some d
    \<and> map_of d ''player'' = Some player
    \<and> map_of d ''date_downloaded'' = Some date_downloaded
    \<and> map_of d ''channel'' = Some channel_dict
    \<and> (\<forall>k. k \<notin> {''player'', ''date_downloaded'', ''channel'', ''playlist'', ''subtitles'',
                   ''comment_count''} \<longrightarrow> map_of d k = map_of fresh k)"
proof -
  define J3 where "J3 = AList.update ''channel'' channel_dict
     (AList.update ''date_downloaded'' date_downloaded
       (AList.update ''player'' player (check_subtitles x i fresh)))"
  define J where "J = (if truthy (dict_get stored ''playlist'')
     then AList.update ''playlist'' (dict_get stored ''playlist'') J3 else J3)"
  define a2 where "a2 = a\<lparr>pulls := (pulls a)(i := rest), ta_video := es_put i J (ta_video a)\<rparr>"
  have call: "reindex_single_video_call x cfg i a
    = (case map_of J ''vid_thumb_url'' of
         None \<Rightarrow> (Some KeyError, a2)
       | Some u \<Rightarrow> reindex_comments x cfg i (refresh_thumb i u a2))"
    using st pl dd ch pu
    by (simp add: reindex_single_video_call_def build_json_def Let_def J_def J3_def a2_def
        split: option.splits)
  have tv: "ta_video a' = es_put i J (ta_video a)
    \<or> (\<exists>n. ta_video a' = es_update i ''comment_count'' (JInt n) (es_put i J (ta_video a)))"
  proof (cases "map_of J ''vid_thumb_url''")
    case None
    with call run show ?thesis by (simp add: a2_def)
  next
    case (Some u)
    with call run have "reindex_comments x cfg i (refresh_thumb i u a2) = (r, a')" by simp
    from reindex_comments_frame [OF this] show ?thesis
      by (simp add: refresh_thumb_def a2_def Let_def)
  qed
  have Jp: "map_of J ''player'' = Some player"
    and Jd: "map_of J ''date_downloaded'' = Some date_downloaded"
    and Jc: "map_of J ''channel'' = Some channel_dict"
    by (simp_all add: J_def J3_def update_conv')
  have Jk: "map_of J k = map_of fresh k"
    if "k \<notin> {''player'', ''date_downloaded'', ''channel'', ''playlist'', ''subtitles'',
                   ''comment_count''}" for k
    using that
    by (auto simp: J_def J3_def check_subtitles_def update_conv' split: option.splits)
  from tv show ?thesis
  proof
    assume "ta_video a' = es_put i J (ta_video a)"
    then have "map_of (ta_video a') i = Some J" by (simp add: map_of_es_put)
    with Jp Jd Jc Jk show ?thesis by blast
  next
    assume "\<exists>n. ta_video a' = es_update i ''comment_count'' (JInt n) (es_put i J (ta_video a))"
    then obtain n where "ta_video a' = es_update i ''comment_count'' (JInt n) (es_put i J (ta_video a))"
      by blast
    then have d: "map_of (ta_video a') i = Some (AList.update ''comment_count'' (JInt n) J)"
      by (simp add: map_of_es_update map_of_es_put)
    have "map_of (AList.update ''comment_count'' (JInt n) J) k = map_of J k"
      if "k \<noteq> ''comment_count''" for k
      using that by (simp add: update_conv')
    with d Jp Jd Jc Jk show ?thesis by auto
  qed
qed

lemma channel_sticky:
  assumes st: "map_of (ta_channel a) c = Some stored"
    and su: "map_of stored ''channel_subscribed'' = Some subscribed"
    and pu: "yt_channel x c = Some pulled" and ne: "pulled \<noteq> []"
  shows "\<exists>a' d. reindex_single_channel x c a = (None, a')
    \<and> map_of (ta_channel a') c = Some d
    \<and> map_of d ''channel_subscribed'' = Some subscribed
    \<and> (\<forall>ov. map_of stored ''channel_overwrites'' = Some ov \<and> truthy ov
          \<longrightarrow> map_of d ''channel_overwrites'' = Some ov)
    \<and> (\<forall>k. k \<notin> {''channel_subscribed'', ''channel_overwrites''}
          \<longrightarrow> map_of d k = map_of pulled k)"
  using assms
  by (auto simp: reindex_single_channel_def Let_def map_of_es_put update_conv'
      split: option.splits)

text \<open>
  C4, as the code has it. An item refresh that pulls fresh metadata persists a document
  whose player state, archival timestamp and channel reference are the stored ones, and
  whose other fields (title, duration, thumbnail among them; playlist, subtitles and
  comment count apart) are the freshly pulled ones. A collection refresh that pulls
  fresh data persists a document whose subscription flag is the stored one and whose
  overwrite map is the stored one whenever that map is not empty; its other fields are
  the freshly pulled ones.
\<close>

theorem refresh_keeps_sticky_fields:
  "(map_of (ta_video a) i = Some stored
      \<and> map_of stored ''player'' = Some player
      \<and> map_of stored ''date_downloaded'' = Some date_downloaded
      \<and> map_of stored ''channel'' = Some channel_dict
      \<and> pulls a i = Fresh fresh # rest
      \<and> reindex_single_video_call x cfg i a = (r, a')
    \<longrightarrow> (\<exists>d. map_of (ta_video a') i = Some d
          \<and> map_of d ''player'' = Some player
          \<and> map_of d ''date_downloaded'' = Some date_downloaded
          \<and> map_of d ''channel'' = Some channel_dict
          \<and> map_of d ''title'' = map_of fresh ''title''
          \<and> map_of d ''duration'' = map_of fresh ''duration''
          \<and> map_of d ''vid_thumb_url'' = map_of fresh ''vid_thumb_url''))
   \<and> (map_of (ta_channel b) c = Some cstored
      \<and> map_of cstored ''channel_subscribed'' = Some subscribed
      \<and> yt_channel x c = Some pulled \<and> pulled \<noteq> []
    \<longrightarrow> (\<exists>b' d. reindex_single_channel x c b = (None, b')
          \<and> map_of (ta_channel b') c = Some d
          \<and> map_of d ''channel_subscribed'' = Some subscribed
          \<and> (\<forall>ov. map_of cstored ''channel_overwrites'' = Some ov \<and> truthy ov
                \<longrightarrow> map_of d ''channel_overwrites'' = Some ov)
          \<and> (\<forall>k. k \<notin> {''channel_subscribed'', ''channel_overwrites''}
                \<longrightarrow> map_of d k = map_of pulled k)))"
proof (intro conjI impI)
  assume h: "map_of (ta_video a) i = Some stored
      \<and> map_of stored ''player'' = Some player
      \<and> map_of stored ''date_downloaded'' = Some date_downloaded
      \<and> map_of stored ''channel'' = Some channel_dict
      \<and> pulls a i = Fresh fresh # rest
      \<and> reindex_single_video_call x cfg i a = (r, a')"
  then have "\<exists>d. map_of (ta_video a') i = Some d
    \<and> map_of d ''player'' = Some player
    \<and> map_of d ''date_downloaded'' = Some date_downloaded
    \<and> map_of d ''channel'' = Some channel_dict
    \<and> (\<forall>k. k \<notin> {''player'', ''date_downloaded'', ''channel'', ''playlist'', ''subtitles'',
                   ''comment_count''} \<longrightarrow> map_of d k = map_of fresh k)"
    by (intro video_call_sticky [of a i stored player date_downloaded channel_dict fresh rest x cfg r a'])
       simp_all
  then obtain d where d: "map_of (ta_video a') i = Some d"
    "map_of d ''player'' = Some player" "map_of d ''date_downloaded'' = Some date_downloaded"
    "map_of d ''channel'' = Some channel_dict"
    "\<forall>k. k \<notin> {''player'', ''date_downloaded'', ''channel'', ''playlist'', ''subtitles'',
                   ''comment_count''} \<longrightarrow> map_of d k = map_of fresh k"
    by blast
  from d(5) have "map_of d ''title'' = map_of fresh ''title''"
    and "map_of d ''duration'' = map_of fresh ''duration''"
    and "map_of d ''vid_thumb_url'' = map_of fresh ''vid_thumb_url''"
    by simp_all
  with d(1-4) show "\<exists>d. map_of (ta_video a') i = Some d
          \<and> map_of d ''player'' = Some player
          \<and> map_of d ''date_downloaded'' = Some date_downloaded
          \<and> map_of d ''channel'' = Some channel_dict
          \<and> map_of d ''title'' = map_of fresh ''title''
          \<and> map_of d ''duration'' = map_of fresh ''duration''
          \<and> map_of d ''vid_thumb_url'' = map_of fresh ''vid_thumb_url''"
    by blast
next
  assume "map_of (ta_channel b) c = Some cstored
      \<and> map_of cstored ''channel_subscribed'' = Some subscribed
      \<and> yt_channel x c = Some pulled \<and> pulled \<noteq> []"
  then show "\<exists>b' d. reindex_single_channel x c b = (None, b')
          \<and> map_of (ta_channel b') c = Some d
          \<and> map_of d ''channel_subscribed'' = Some subscribed
          \<and> (\<forall>ov. map_of cstored ''channel_overwrites'' = Some ov \<and> truthy ov
                \<longrightarrow> map_of d ''channel_overwrites'' = Some ov)
          \<and> (\<forall>k. k \<notin> {''channel_subscribed'', ''channel_overwrites''}
                \<longrightarrow> map_of d k = map_of pulled k)"
    by (intro channel_sticky) simp_all
qed

theorem refresh_keeps_sticky_fields_witness:
  "map_of (ta_video fresh_archive) ''v1'' = Some sample_video
   \<and> pulls fresh_archive ''v1'' = Fresh fresh_video # []
   \<and> map_of (ta_video (snd (reindex_single_video_call fresh_extractor comment_config ''v1''
                                fresh_archive))) ''v1''
      = Some [(''youtube_id'', JStr ''v1''), (''title'', JStr ''new title''), (''duration'', JInt 61),
              (''vid_thumb_url'', JStr ''new.jpg''),
              (''player'', JObj [(''watched'', JBool True)]), (''date_downloaded'', JInt 100),
              (''channel'', JObj [(''channel_id'', JStr ''c1'')]), (''active'', JBool True)]
   \<and> map_of (ta_channel fresh_archive) ''c1'' = Some sample_channel
   \<and> yt_channel fresh_extractor ''c1'' = Some fresh_channel
   \<and> map_of (ta_channel (snd (reindex_single_channel fresh_extractor ''c1'' fresh_archive))) ''c1''
      = Some [(''channel_name'', JStr ''new name''), (''channel_subscribed'', JBool True),
              (''channel_active'', JBool True),
              (''channel_overwrites'', JObj [(''autodelete_days'', JInt 30)])]"
proof -
  let ?run = "reindex_single_video_call fresh_extractor comment_config ''v1'' fresh_archive"
  have v: "map_of (ta_video fresh_archive) ''v1'' = Some sample_video"
    and p: "pulls fresh_archive ''v1'' = Fresh fresh_video # []"
    and c: "map_of (ta_channel fresh_archive) ''c1'' = Some sample_channel"
    and y: "yt_channel fresh_extractor ''c1'' = Some fresh_channel"
    by (simp_all add: fresh_archive_def sample_archive_def fresh_extractor_def sample_extractor_def)
  have s: "map_of sample_video ''player'' = Some (JObj [(''watched'', JBool True)])"
    "map_of sample_video ''date_downloaded'' = Some (JInt 100)"
    "map_of sample_video ''channel'' = Some (JObj [(''channel_id'', JStr ''c1'')])"
    "map_of sample_channel ''channel_subscribed'' = Some (JBool True)"
    "fresh_channel \<noteq> []"
    by (simp_all add: sample_video_def sample_channel_def fresh_channel_def)
  note t = refresh_keeps_sticky_fields [of fresh_archive "''v1''" sample_video
      "JObj [(''watched'', JBool True)]" "JInt 100" "JObj [(''channel_id'', JStr ''c1'')]"
      fresh_video "[]" fresh_extractor comment_config "fst ?run" "snd ?run"
      fresh_archive "''c1''" sample_channel "JBool True" fresh_channel]
  from t v p s have "\<exists>d. map_of (ta_video (snd ?run)) ''v1'' = Some d
          \<and> map_of d ''player'' = Some (JObj [(''watched'', JBool True)])"
    by auto
  moreover from t c y s
  have "\<exists>b' d. reindex_single_channel fresh_extractor ''c1'' fresh_archive = (None, b')
          \<and> map_of (ta_channel b') ''c1'' = Some d
          \<and> map_of d ''channel_subscribed'' = Some (JBool True)"
    by auto
  moreover have "map_of (ta_video (snd ?run)) ''v1''
      = Some [(''youtube_id'', JStr ''v1''), (''title'', JStr ''new title''), (''duration'', JInt 61),
              (''vid_thumb_url'', JStr ''new.jpg''),
              (''player'', JObj [(''watched'', JBool True)]), (''date_downloaded'', JInt 100),
              (''channel'', JObj [(''channel_id'', JStr ''c1'')]), (''active'', JBool True)]"
    by (simp add: sample_defs reindex_single_video_call_def build_json_def check_subtitles_def
        dict_get_def es_put_def refresh_thumb_def reindex_comments_def check_config_def
        comments_build_json_def Let_def)
  moreover have "map_of (ta_channel (snd (reindex_single_channel fresh_extractor ''c1'' fresh_archive))) ''c1''
      = Some [(''channel_name'', JStr ''new name''), (''channel_subscribed'', JBool True),
              (''channel_active'', JBool True),
              (''channel_overwrites'', JObj [(''autodelete_days'', JInt 30)])]"
    by (simp add: sample_defs reindex_single_channel_def es_put_def Let_def)
  ultimately show ?thesis using v p c y by simp
qed

text \<open>
  C4 as stated fails for the overwrite map: a channel stored with an empty overwrite map
  is persisted without the key, since \<open>if overwrites:\<close> skips an empty map.
\<close>

theorem overwrite_map_counterexample:
  "map_of (ta_channel plain_archive) ''c1''
     = Some [(''channel_name'', JStr ''old name''), (''channel_subscribed'', JBool True),
             (''channel_overwrites'', JObj []), (''channel_active'', JBool True)]
   \<and> fst (reindex_single_channel fresh_extractor ''c1'' plain_archive) = None
   \<and> map_of (ta_channel (snd (reindex_single_channel fresh_extractor ''c1'' plain_archive))) ''c1''
     = Some [(''channel_name'', JStr ''new name''), (''channel_subscribed'', JBool True),
             (''channel_active'', JBool True)]"
  by (simp add: sample_defs reindex_single_channel_def es_put_def Let_def)

section \<open>Upstream disappearance\<close>






section \<open>Refreshing comments\<close>

lemma reindex_comments_replaces:
  assumes "reindex_comments x cfg i a = (r, a')"
  shows "a' = a
    \<or> (\<exists>cf jd. cf \<noteq> [] \<and> comments_build_json x cfg i = Inr (cf, jd)
          \<and> get_es_comments a' i = Some jd)"
  using assms
  by (auto simp: reindex_comments_def upload_comments_def delete_comments_def
        get_es_comments_def map_of_es_put Let_def
      split: if_splits sum.splits prod.splits)

lemma comments_build_json_comments:
  assumes "comments_build_json x cfg i = Inr (cf, jd)"
  shows "map_of jd ''comment_comments'' = Some (JList cf)"
  using assms
  by (auto simp: comments_build_json_def Let_def split: jval.splits option.splits sum.splits)

text \<open>
  C7. When the freshly pulled comment set is empty, \<open>reindex_comments\<close> returns
  before it deletes or uploads anything: the store, and with it the stored comment
  document, is left as it is. Whenever a comment refresh does change the store, the
  comment document it leaves holds a non-empty comment set.
\<close>

theorem empty_pull_keeps_comments:
  "(comments_build_json x cfg i = Inr ([], json_data)
      \<longrightarrow> reindex_comments x cfg i a = (None, a))
   \<and> (reindex_comments x cfg i a = (r, a')
      \<longrightarrow> a' = a
          \<or> (\<exists>cf jd. cf \<noteq> [] \<and> get_es_comments a' i = Some jd
                \<and> map_of jd ''comment_comments'' = Some (JList cf)))"
proof (intro conjI impI)
  assume "comments_build_json x cfg i = Inr ([], json_data)"
  then show "reindex_comments x cfg i a = (None, a)"
    by (simp add: reindex_comments_def Let_def)
next
  assume "reindex_comments x cfg i a = (r, a')"
  from reindex_comments_replaces [OF this]
  show "a' = a
          \<or> (\<exists>cf jd. cf \<noteq> [] \<and> get_es_comments a' i = Some jd
                \<and> map_of jd ''comment_comments'' = Some (JList cf))"
    using comments_build_json_comments by blast
qed

theorem empty_pull_keeps_comments_witness:
  "comments_build_json sample_extractor comment_config ''v1''
     = Inr ([], [(''youtube_id'', JStr ''v1''), (''comment_last_refresh'', JInt 5),
                 (''comment_channel_id'', JStr ''c1''), (''comment_comments'', JList [])])
   \<and> reindex_comments sample_extractor comment_config ''v1'' sample_archive = (None, sample_archive)
   \<and> get_es_comments sample_archive ''v1'' = Some sample_comments
   \<and> fst (reindex_comments talkative_extractor comment_config ''v1'' sample_archive) = None
   \<and> get_es_comments (snd (reindex_comments talkative_extractor comment_config ''v1'' sample_archive))
        ''v1''
      = Some [(''youtube_id'', JStr ''v1''), (''comment_last_refresh'', JInt 5),
              (''comment_channel_id'', JStr ''c1''),
              (''comment_comments'', JList [JObj [(''text'', JStr ''second'')]])]"
proof -
  let ?jd = "[(''youtube_id'', JStr ''v1''), (''comment_last_refresh'', JInt 5),
                 (''comment_channel_id'', JStr ''c1''), (''comment_comments'', JList [])]"
  let ?run = "reindex_comments talkative_extractor comment_config ''v1'' sample_archive"
  have h: "comments_build_json sample_extractor comment_config ''v1'' = Inr ([], ?jd)"
    by (simp add: comments_build_json_def sample_extractor_def comment_config_def dict_get_def)
  have g: "get_es_comments sample_archive ''v1'' = Some sample_comments"
    by (simp add: get_es_comments_def sample_archive_def)
  have u: "reindex_comments sample_extractor comment_config ''v1'' sample_archive
      = (None, sample_archive)"
    using empty_pull_keeps_comments
      [of sample_extractor comment_config "''v1''" ?jd sample_archive, THEN conjunct1] h
    by (rule mp)
  have "snd ?run = sample_archive
      \<or> (\<exists>cf jd. cf \<noteq> [] \<and> get_es_comments (snd ?run) ''v1'' = Some jd
            \<and> map_of jd ''comment_comments'' = Some (JList cf))"
    using empty_pull_keeps_comments
      [of talkative_extractor comment_config "''v1''" ?jd sample_archive "fst ?run" "snd ?run",
       THEN conjunct2]
    by simp
  moreover have "fst ?run = None \<and> get_es_comments (snd ?run) ''v1''
      = Some [(''youtube_id'', JStr ''v1''), (''comment_last_refresh'', JInt 5),
              (''comment_channel_id'', JStr ''c1''),
              (''comment_comments'', JList [JObj [(''text'', JStr ''second'')]])]"
    by (simp add: reindex_comments_def check_config_def comments_build_json_def
        format_comments_def keep_es_comments_def upload_comments_def delete_comments_def
        get_es_comments_def es_put_def es_delete_def es_update_def dict_get_def
        talkative_extractor_def sample_extractor_def comment_config_def sample_archive_def
        Let_def)
  ultimately show ?thesis using h g u by simp
qed

section \<open>Progress queries\<close>

lemma all_not_real_queue: "''all'' \<notin> set (map (\<lambda>c. queue_name (snd c)) REINDEX_CONFIG)"
  by (simp add: REINDEX_CONFIG_def video_config_def channel_config_def playlist_config_def)

text \<open>
  C9. A progress query with a request id and no entity type looks the id up in a queue
  named \<open>all\<close>, which is none of the three refresh queues: the state it returns is the
  presence of the id in that queue, and is false whenever that queue is empty, wherever
  else the id is queued.
\<close>

theorem progress_without_type_checks_all:
  assumes "falsy (request_type p)" and "\<not> falsy (request_id p)"
  shows "get_queue_name p = Inr (''all'', ''all'')
    \<and> ''all'' \<notin> set (map (\<lambda>c. queue_name (snd c)) REINDEX_CONFIG)
    \<and> (\<exists>progress. get_progress rq p = Inr progress
          \<and> map_of progress ''state'' = Some (JBool (in_queue (rq ''all'') (the (request_id p)))))
    \<and> (rq ''all'' = [] \<longrightarrow>
          (\<exists>progress. get_progress rq p = Inr progress
             \<and> map_of progress ''state'' = Some (JBool False)))"
proof -
  have q: "get_queue_name p = Inr (''all'', ''all'')"
    using assms(1) by (simp add: get_queue_name_def)
  have s: "\<exists>progress. get_progress rq p = Inr progress
          \<and> map_of progress ''state'' = Some (JBool (in_queue (rq ''all'') (the (request_id p))))"
    using assms(2) by (simp add: get_progress_def q get_state_def Let_def)
  then have "rq ''all'' = [] \<longrightarrow>
          (\<exists>progress. get_progress rq p = Inr progress
             \<and> map_of progress ''state'' = Some (JBool False))"
    by (auto simp: in_queue_def)
  with q s all_not_real_queue show ?thesis by blast
qed

theorem progress_without_type_checks_all_witness:
  "falsy (request_type \<lparr>request_type = None, request_id = Some ''v1''\<rparr>)
   \<and> \<not> falsy (request_id \<lparr>request_type = None, request_id = Some ''v1''\<rparr>)
   \<and> redis sample_world ''all'' = []
   \<and> in_queue (redis sample_world ''reindex:ta_video'') ''v1''
   \<and> (\<exists>progress. get_progress (redis sample_world) \<lparr>request_type = None, request_id = Some ''v1''\<rparr>
          = Inr progress \<and> map_of progress ''state'' = Some (JBool False))"
proof -
  let ?p = "\<lparr>request_type = None, request_id = Some ''v1''\<rparr>"
  have a: "falsy (request_type ?p)" and b: "\<not> falsy (request_id ?p)"
    by (simp_all add: falsy_def)
  have e: "redis sample_world ''all'' = []"
    and m: "in_queue (redis sample_world ''reindex:ta_video'') ''v1''"
    by (simp_all add: sample_world_def in_queue_def)
  from progress_without_type_checks_all [OF a b, of "redis sample_world"] e
  have "\<exists>progress. get_progress (redis sample_world) ?p = Inr progress
          \<and> map_of progress ''state'' = Some (JBool False)"
    by blast
  with a b e m show ?thesis by blast
qed

end
